theory Spec2Isabelle
  imports Main "HOL-Library.Word"
begin

unbundle bit_operations_syntax

section \<open>Bytes and strings\<close>

text \<open>
  A Go \<open>string\<close> is an immutable sequence of bytes and \<open>==\<close> on strings compares the
  bytes; it is modelled as \<^typ>\<open>string\<close>, whose characters are the 256 byte values.
  A \<open>[]byte\<close> is a list of 8-bit words, and the conversion \<open>[]byte(s)\<close> copies the
  bytes of \<open>s\<close> one by one.
\<close>

type_synonym byte = "8 word"
type_synonym uint32 = "32 word"
type_synonym uint64 = "64 word"

definition bytes_of_string :: "string \<Rightarrow> byte list" where
  "bytes_of_string s = map of_char s"

section \<open>The library primitives: SHA-256, HMAC and hexadecimal formatting\<close>

text \<open>
  \<open>crypto/sha256\<close>, \<open>crypto/hmac\<close> and \<open>fmt\<close> belong to the Go standard library.
  They are modelled after FIPS 180-4, RFC 2104 and the library's documented behaviour,
  so that the signing functions below compute the very strings the program computes.
\<close>

subsection \<open>SHA-256\<close>

definition rotr :: "nat \<Rightarrow> uint32 \<Rightarrow> uint32" where
  "rotr n x = drop_bit n x OR push_bit (32 - n) x"

definition Ch :: "uint32 \<Rightarrow> uint32 \<Rightarrow> uint32 \<Rightarrow> uint32" where
  "Ch x y z = (x AND y) XOR (NOT x AND z)"

definition Maj :: "uint32 \<Rightarrow> uint32 \<Rightarrow> uint32 \<Rightarrow> uint32" where
  "Maj x y z = (x AND y) XOR (x AND z) XOR (y AND z)"

definition Sigma0 :: "uint32 \<Rightarrow> uint32" where
  "Sigma0 x = rotr 2 x XOR rotr 13 x XOR rotr 22 x"

definition Sigma1 :: "uint32 \<Rightarrow> uint32" where
  "Sigma1 x = rotr 6 x XOR rotr 11 x XOR rotr 25 x"

definition sigma0 :: "uint32 \<Rightarrow> uint32" where
  "sigma0 x = rotr 7 x XOR rotr 18 x XOR drop_bit 3 x"

definition sigma1 :: "uint32 \<Rightarrow> uint32" where
  "sigma1 x = rotr 17 x XOR rotr 19 x XOR drop_bit 10 x"

text \<open>The sixty-four round constants, in the eight rows of eight in which the standard prints them.\<close>

definition K256 :: "uint32 list" where
  "K256 = concat
    [[0x428a2f98, 0x71374491, 0xb5c0fbcf, 0xe9b5dba5, 0x3956c25b, 0x59f111f1, 0x923f82a4, 0xab1c5ed5],
     [0xd807aa98, 0x12835b01, 0x243185be, 0x550c7dc3, 0x72be5d74, 0x80deb1fe, 0x9bdc06a7, 0xc19bf174],
     [0xe49b69c1, 0xefbe4786, 0x0fc19dc6, 0x240ca1cc, 0x2de92c6f, 0x4a7484aa, 0x5cb0a9dc, 0x76f988da],
     [0x983e5152, 0xa831c66d, 0xb00327c8, 0xbf597fc7, 0xc6e00bf3, 0xd5a79147, 0x06ca6351, 0x14292967],
     [0x27b70a85, 0x2e1b2138, 0x4d2c6dfc, 0x53380d13, 0x650a7354, 0x766a0abb, 0x81c2c92e, 0x92722c85],
     [0xa2bfe8a1, 0xa81a664b, 0xc24b8b70, 0xc76c51a3, 0xd192e819, 0xd6990624, 0xf40e3585, 0x106aa070],
     [0x19a4c116, 0x1e376c08, 0x2748774c, 0x34b0bcb5, 0x391c0cb3, 0x4ed8aa4a, 0x5b9cca4f, 0x682e6ff3],
     [0x748f82ee, 0x78a5636f, 0x84c87814, 0x8cc70208, 0x90befffa, 0xa4506ceb, 0xbef9a3f7, 0xc67178f2]]"

type_synonym sha_state =
  "uint32 \<times> uint32 \<times> uint32 \<times> uint32 \<times> uint32 \<times> uint32 \<times> uint32 \<times> uint32"

definition init_state :: sha_state where
  "init_state =
    (0x6a09e667, 0xbb67ae85, 0x3c6ef372, 0xa54ff53a, 0x510e527f, 0x9b05688c, 0x1f83d9ab, 0x5be0cd19)"

text \<open>Big-endian reading and writing of 32-bit and 64-bit words.\<close>

definition be_uint32 :: "byte list \<Rightarrow> uint32" where
  "be_uint32 bs = foldl (\<lambda>acc b. push_bit 8 acc OR ucast b) 0 (take 4 bs)"

definition put_uint32 :: "uint32 \<Rightarrow> byte list" where
  "put_uint32 w = [ucast (drop_bit 24 w), ucast (drop_bit 16 w), ucast (drop_bit 8 w), ucast w]"

definition put_uint64 :: "uint64 \<Rightarrow> byte list" where
  "put_uint64 w =
    [ucast (drop_bit 56 w), ucast (drop_bit 48 w), ucast (drop_bit 40 w), ucast (drop_bit 32 w),
     ucast (drop_bit 24 w), ucast (drop_bit 16 w), ucast (drop_bit 8 w), ucast w]"

text \<open>
  The message schedule: the sixteen words of the block, extended to sixty-four by
  \<open>w[i] = sigma1 w[i-2] + w[i-7] + sigma0 w[i-15] + w[i-16]\<close>.
\<close>

primrec words_of_block :: "nat \<Rightarrow> byte list \<Rightarrow> uint32 list" where
  "words_of_block 0 bs = []"
| "words_of_block (Suc n) bs = be_uint32 bs # words_of_block n (drop 4 bs)"

primrec extend_schedule :: "nat \<Rightarrow> uint32 list \<Rightarrow> uint32 list" where
  "extend_schedule 0 w = w"
| "extend_schedule (Suc n) w =
    (let i = length w
     in extend_schedule n
          (w @ [sigma1 (w ! (i - 2)) + w ! (i - 7) + sigma0 (w ! (i - 15)) + w ! (i - 16)]))"

definition schedule :: "byte list \<Rightarrow> uint32 list" where
  "schedule blk = extend_schedule 48 (words_of_block 16 blk)"

fun sha_round :: "sha_state \<Rightarrow> uint32 \<times> uint32 \<Rightarrow> sha_state" where
  "sha_round (a, b, c, d, e, f, g, h) (k, w) =
    (let t1 = h + Sigma1 e + Ch e f g + k + w;
         t2 = Sigma0 a + Maj a b c
     in (t1 + t2, a, b, c, d + t1, e, f, g))"

fun add_state :: "sha_state \<Rightarrow> sha_state \<Rightarrow> sha_state" where
  "add_state (a, b, c, d, e, f, g, h) (a', b', c', d', e', f', g', h') =
    (a + a', b + b', c + c', d + d', e + e', f + f', g + g', h + h')"

definition block :: "sha_state \<Rightarrow> byte list \<Rightarrow> sha_state" where
  "block st blk = add_state st (foldl sha_round st (zip K256 (schedule blk)))"

text \<open>
  Padding as \<open>checkSum\<close> writes it: the byte \<open>0x80\<close>, zero bytes up to 56 modulo 64,
  and the length in bits as a big-endian 64-bit integer.
\<close>

definition sha_padding :: "nat \<Rightarrow> byte list" where
  "sha_padding len =
    (0x80 # replicate ((if len mod 64 < 56 then 56 - len mod 64 else 64 + 56 - len mod 64) - 1) 0)
      @ put_uint64 (push_bit 3 (of_nat len))"

primrec chunks :: "nat \<Rightarrow> byte list \<Rightarrow> byte list list" where
  "chunks 0 bs = []"
| "chunks (Suc n) bs = take 64 bs # chunks n (drop 64 bs)"

fun state_bytes :: "sha_state \<Rightarrow> byte list" where
  "state_bytes (a, b, c, d, e, f, g, h) =
    put_uint32 a @ put_uint32 b @ put_uint32 c @ put_uint32 d @
    put_uint32 e @ put_uint32 f @ put_uint32 g @ put_uint32 h"

definition sha256 :: "byte list \<Rightarrow> byte list" where
  "sha256 msg =
    (let padded = msg @ sha_padding (length msg)
     in state_bytes (foldl block init_state (chunks (length padded div 64) padded)))"

subsection \<open>HMAC\<close>

text \<open>
  The object returned by \<open>hmac.New(sha256.New, key)\<close>. A running SHA-256 digest is
  represented by the bytes written to it so far; \<open>Sum\<close> hashes them. The outer digest
  is reset by every \<open>Sum\<close>, so only the inner one is part of the state.
\<close>

record hmac =
  opad :: "byte list"
  ipad :: "byte list"
  inner :: "byte list"

definition blocksize :: nat where
  "blocksize = 64"

definition hmac_New :: "byte list \<Rightarrow> hmac" where
  "hmac_New key =
    (let key = (if length key > blocksize then sha256 key else key);
         padded = key @ replicate (blocksize - length key) 0;
         ipad = map (\<lambda>b. b XOR 0x36) padded;
         opad = map (\<lambda>b. b XOR 0x5c) padded
     in \<lparr>opad = opad, ipad = ipad, inner = ipad\<rparr>)"

definition hmac_Write :: "hmac \<Rightarrow> byte list \<Rightarrow> hmac" where
  "hmac_Write h p = h\<lparr>inner := inner h @ p\<rparr>"

definition hmac_Sum :: "hmac \<Rightarrow> byte list \<Rightarrow> byte list" where
  "hmac_Sum h b = b @ sha256 (opad h @ sha256 (inner h))"

subsection \<open>Formatting with the verb \<open>%02x\<close>\<close>

text \<open>
  For a byte slice \<open>%x\<close> prints two lower-case hexadecimal digits per byte, taken from
  the digit string \<open>0123456789abcdef\<close>. The width 2 with the zero flag pads on the
  left, which only an empty slice needs.
\<close>

definition ldigits :: string where
  "ldigits = ''0123456789abcdef''"

definition hex_byte :: "byte \<Rightarrow> string" where
  "hex_byte b = [ldigits ! unat (drop_bit 4 b), ldigits ! unat (b AND 0xF)]"

definition Sprintf_02x :: "byte list \<Rightarrow> string" where
  "Sprintf_02x bs =
    (let s = concat (map hex_byte bs) in replicate (2 - length s) (CHR ''0'') @ s)"

section \<open>Signatures\<close>

text \<open>
  Each signing function creates the keyed hash, writes its fields one after the other
  and formats the sum. The accumulator before \<open>Sum\<close> is a definition of its own, so
  that the bytes fed to the hash can be spoken about.
\<close>

definition clientTokenMac :: "string \<Rightarrow> string \<Rightarrow> string \<Rightarrow> string \<Rightarrow> string \<Rightarrow> hmac" where
  "clientTokenMac secretKey projectKey user timestamp info =
    (let token = hmac_New (bytes_of_string secretKey);
         token = hmac_Write token (bytes_of_string projectKey);
         token = hmac_Write token (bytes_of_string user);
         token = hmac_Write token (bytes_of_string timestamp);
         info = (if info = '''' then ''{}'' else info);
         token = hmac_Write token (bytes_of_string info)
     in token)"

definition generateClientToken :: "string \<Rightarrow> string \<Rightarrow> string \<Rightarrow> string \<Rightarrow> string \<Rightarrow> string" where
  "generateClientToken secretKey projectKey user timestamp info =
    Sprintf_02x (hmac_Sum (clientTokenMac secretKey projectKey user timestamp info) [])"

definition checkClientToken ::
  "string \<Rightarrow> string \<Rightarrow> string \<Rightarrow> string \<Rightarrow> string \<Rightarrow> string \<Rightarrow> bool" where
  "checkClientToken secretKey projectKey user timestamp info providedToken =
    (let token = generateClientToken secretKey projectKey user timestamp info
     in token = providedToken)"

definition apiSignMac :: "string \<Rightarrow> string \<Rightarrow> string \<Rightarrow> hmac" where
  "apiSignMac secretKey projectKey encodedData =
    (let sign = hmac_New (bytes_of_string secretKey);
         sign = hmac_Write sign (bytes_of_string projectKey);
         sign = hmac_Write sign (bytes_of_string encodedData)
     in sign)"

definition generateApiSign :: "string \<Rightarrow> string \<Rightarrow> string \<Rightarrow> string" where
  "generateApiSign secretKey projectKey encodedData =
    Sprintf_02x (hmac_Sum (apiSignMac secretKey projectKey encodedData) [])"

definition checkApiSign :: "string \<Rightarrow> string \<Rightarrow> string \<Rightarrow> string \<Rightarrow> bool" where
  "checkApiSign secretKey projectKey encodedData providedSign =
    (let sign = generateApiSign secretKey projectKey encodedData
     in sign = providedSign)"

definition channelSignMac :: "string \<Rightarrow> string \<Rightarrow> string \<Rightarrow> string \<Rightarrow> hmac" where
  "channelSignMac secretKey client channel channelData =
    (let sign = hmac_New (bytes_of_string secretKey);
         sign = hmac_Write sign (bytes_of_string client);
         sign = hmac_Write sign (bytes_of_string channel);
         sign = hmac_Write sign (bytes_of_string channelData)
     in sign)"

definition generateChannelSign :: "string \<Rightarrow> string \<Rightarrow> string \<Rightarrow> string \<Rightarrow> string" where
  "generateChannelSign secretKey client channel channelData =
    Sprintf_02x (hmac_Sum (channelSignMac secretKey client channel channelData) [])"

definition checkChannelSign :: "string \<Rightarrow> string \<Rightarrow> string \<Rightarrow> string \<Rightarrow> string \<Rightarrow> bool" where
  "checkChannelSign secretKey client channel channelData providedSign =
    (let sign = generateChannelSign secretKey client channel channelData
     in sign = providedSign)"

section \<open>Node configuration\<close>

text \<open>
  \<open>channel.Options\<close> and \<open>channel.Namespace\<close> are declared in the package
  \<open>lib/channel\<close>. The functions below copy and return options without looking inside
  them, so the options are a type parameter \<open>'o\<close>; a namespace is a name with its options.
  A \<open>time.Duration\<close> is a number of nanoseconds.
\<close>

record 'o Namespace =
  Name :: string
  Options :: 'o

record 'o Config =
  Name :: string
  Secret :: string
  Options :: 'o
  Namespaces :: "'o Namespace list"
  NodePingInterval :: int
  NodeInfoCleanInterval :: int
  NodeInfoMaxDelay :: int
  NodeMetricsInterval :: int
  PresencePingInterval :: int
  PresenceExpireInterval :: int
  ClientPingInterval :: int
  ClientInsecure :: bool
  ClientExpire :: bool
  ClientExpiredCloseDelay :: int
  ClientStaleCloseDelay :: int
  ClientMessageWriteTimeout :: int
  ClientRequestMaxSize :: int
  ClientQueueMaxSize :: int
  ClientChannelLimit :: int
  UserConnectionLimit :: int
  ChannelPrivatePrefix :: string
  ChannelNamespaceBoundary :: string
  ChannelUserBoundary :: string
  ChannelUserSeparator :: string
  ChannelClientBoundary :: string
  ChannelMaxLength :: int

text \<open>A Go \<open>error\<close> made by \<open>errors.New\<close> carries its message; \<open>nil\<close> is \<open>None\<close>.\<close>

datatype error = errors_New string

fun stringInSlice :: "string \<Rightarrow> string list \<Rightarrow> bool" where
  "stringInSlice a [] = False"
| "stringInSlice a (b # list) = (if b = a then True else stringInSlice a list)"

text \<open>
  \<open>regexp.MatchString\<close> with the pattern \<open>^[-a-zA-Z0-9_]{2,}$\<close> of \<open>Validate\<close>.
  Without the flag \<open>m\<close> the anchors stand for the two ends of the text, so the whole
  name consists of at least two characters of the class. All of these are ASCII: a byte
  from \<open>0x80\<close> on belongs to a rune outside the class, whether the name is valid UTF-8
  or not. The pattern compiles, so the error that \<open>Validate\<close> drops is always \<open>nil\<close>.
\<close>

definition in_range :: "char \<Rightarrow> char \<Rightarrow> char \<Rightarrow> bool" where
  "in_range lo hi c = ((of_char lo :: nat) \<le> of_char c \<and> (of_char c :: nat) \<le> of_char hi)"

definition in_class :: "char \<Rightarrow> bool" where
  "in_class c =
    (c = CHR ''-'' \<or> in_range (CHR ''a'') (CHR ''z'') c \<or> in_range (CHR ''A'') (CHR ''Z'') c
      \<or> in_range (CHR ''0'') (CHR ''9'') c \<or> c = CHR ''_'')"

definition MatchString_pattern :: "string \<Rightarrow> bool" where
  "MatchString_pattern name = (2 \<le> length name \<and> list_all in_class name)"

definition errPrefix :: string where
  "errPrefix = ''config error: ''"

text \<open>The dash of the first message is U+2013, three bytes in UTF-8.\<close>

definition wrong_name_message :: string where
  "wrong_name_message = ''wrong namespace name '' @ [CHR 0xE2, CHR 0x80, CHR 0x93] @ '' ''"

text \<open>The loop of \<open>Validate\<close>, with the slice \<open>nss\<close> of the names seen so far.\<close>

fun Validate_loop :: "'o Namespace list \<Rightarrow> string list \<Rightarrow> error option" where
  "Validate_loop [] nss = None"
| "Validate_loop (n # ns) nss =
    (let name = Namespace.Name n
     in if \<not> MatchString_pattern name
        then Some (errors_New (errPrefix @ wrong_name_message @ name))
        else if stringInSlice name nss
        then Some (errors_New (errPrefix @ ''namespace name must be unique''))
        else Validate_loop ns (nss @ [name]))"

definition Validate :: "'o Config \<Rightarrow> error option" where
  "Validate c = Validate_loop (Namespaces c) []"

text \<open>
  \<open>channelOpts\<close>. The zero value \<open>channel.Options{}\<close> that the last line returns
  depends on the declaration of the options; it is the parameter \<open>zero\<close>.
\<close>

fun channelOpts_loop :: "'o \<Rightarrow> 'o Namespace list \<Rightarrow> string \<Rightarrow> 'o \<times> bool" where
  "channelOpts_loop zero [] namespaceName = (zero, False)"
| "channelOpts_loop zero (n # ns) namespaceName =
    (if Namespace.Name n = namespaceName then (Namespace.Options n, True)
     else channelOpts_loop zero ns namespaceName)"

definition channelOpts :: "'o \<Rightarrow> 'o Config \<Rightarrow> string \<Rightarrow> 'o \<times> bool" where
  "channelOpts zero c namespaceName =
    (if namespaceName = '''' then (Config.Options c, True)
     else channelOpts_loop zero (Namespaces c) namespaceName)"

definition DefaultName :: string where
  "DefaultName = ''centrifugo''"

definition DefaultNodePingInterval :: int where
  "DefaultNodePingInterval = 3"

definition Second :: int where
  "Second = 1000000000"

text \<open>\<open>DefaultConfig\<close>; the fields its literal leaves out have their zero values.\<close>

definition DefaultConfig :: "'o \<Rightarrow> 'o Config" where
  "DefaultConfig zero =
    \<lparr>Name = DefaultName,
     Secret = '''',
     Options = zero,
     Namespaces = [],
     NodePingInterval = DefaultNodePingInterval * Second,
     NodeInfoCleanInterval = DefaultNodePingInterval * 3 * Second,
     NodeInfoMaxDelay = DefaultNodePingInterval * 2 * Second + 1 * Second,
     NodeMetricsInterval = 60 * Second,
     PresencePingInterval = 25 * Second,
     PresenceExpireInterval = 60 * Second,
     ClientPingInterval = 25 * Second,
     ClientInsecure = False,
     ClientExpire = False,
     ClientExpiredCloseDelay = 25 * Second,
     ClientStaleCloseDelay = 25 * Second,
     ClientMessageWriteTimeout = 0,
     ClientRequestMaxSize = 65536,
     ClientQueueMaxSize = 10485760,
     ClientChannelLimit = 128,
     UserConnectionLimit = 0,
     ChannelPrivatePrefix = ''$'',
     ChannelNamespaceBoundary = '':'',
     ChannelUserBoundary = ''#'',
     ChannelUserSeparator = '','',
     ChannelClientBoundary = ''&'',
     ChannelMaxLength = 255\<rparr>"

section \<open>Reference notions for the statements\<close>

text \<open>
  The name pattern \<open>^[A-Za-z0-9_-]{2,}$\<close> as the specification writes it: at least two
  characters, each of them a letter, a digit, an underscore or a hyphen.
\<close>

definition name_pattern_ok :: "string \<Rightarrow> bool" where
  "name_pattern_ok name =
    (2 \<le> length name \<and>
     set name \<subseteq> set (''ABCDEFGHIJKLMNOPQRSTUVWXYZ'' @ ''abcdefghijklmnopqrstuvwxyz'' @
                      ''0123456789'' @ ''_-''))"

text \<open>Concrete configurations for the examples: options are numbers, the zero value is 0.\<close>

definition ns :: "string \<Rightarrow> nat \<Rightarrow> nat Namespace" where
  "ns name opts = \<lparr>Namespace.Name = name, Options = opts\<rparr>"

definition config_with :: "nat \<Rightarrow> nat Namespace list \<Rightarrow> nat Config" where
  "config_with opts nss = (DefaultConfig 0)\<lparr>Options := opts, Namespaces := nss\<rparr>"

lemmas example_defs =
  ns_def config_with_def DefaultConfig_def Validate_def channelOpts_def name_pattern_ok_def
  MatchString_pattern_def in_class_def in_range_def Let_def errPrefix_def wrong_name_message_def

section \<open>Facts about the library primitives\<close>

lemma unat_of_char: "unat (of_char c :: byte) = of_char c"
proof -
  have "(of_char c :: byte) = of_nat (of_char c)" by (simp add: of_nat_of_char)
  then have "unat (of_char c :: byte) = (of_char c :: nat) mod 256" by (simp add: unat_of_nat)
  then show ?thesis by simp
qed

lemma bytes_of_string_eq_iff: "bytes_of_string s = bytes_of_string t \<longleftrightarrow> s = t"
proof -
  have "inj (of_char :: char \<Rightarrow> byte)"
  proof (rule injI)
    fix c d :: char
    assume "(of_char c :: byte) = of_char d"
    then have "unat (of_char c :: byte) = unat (of_char d :: byte)" by simp
    then show "c = d" by (simp add: unat_of_char)
  qed
  then show ?thesis by (auto simp: bytes_of_string_def inj_map_eq_map)
qed

lemma bytes_of_string_append:
  "bytes_of_string (s @ t) = bytes_of_string s @ bytes_of_string t"
  by (simp add: bytes_of_string_def)

lemma length_state_bytes: "length (state_bytes st) = 32"
  by (cases st rule: state_bytes.cases) (simp add: put_uint32_def)

lemma length_sha256: "length (sha256 msg) = 32"
  by (simp add: sha256_def Let_def length_state_bytes)

lemma length_hmac_Sum: "length (hmac_Sum h b) = length b + 32"
  by (simp add: hmac_Sum_def length_sha256)

lemma nibble_hi: "unat (drop_bit 4 (b :: byte)) < 16"
proof -
  have "unat b < 2 ^ LENGTH(8)" by (rule unsigned_less)
  then have "unat b < 256" by simp
  then have "unat b div 16 < 16" by simp
  moreover have "unat (drop_bit 4 b) = drop_bit 4 (unat b)" by (rule unat_drop_bit_eq)
  ultimately show ?thesis by (simp add: drop_bit_eq_div)
qed

lemma nibble_lo: "unat ((b :: byte) AND 0xF) < 16"
proof -
  have "unat (b AND 0xF) \<le> unat (0xF :: byte)"
    by (rule word_and_le1 [THEN word_le_nat_alt [THEN iffD1]])
  then show ?thesis by simp
qed

lemma ldigits_nth: "n < 16 \<Longrightarrow> ldigits ! n \<in> set ldigits"
  by (rule nth_mem) (simp add: ldigits_def)

lemma length_hex_byte: "length (hex_byte b) = 2"
  by (simp add: hex_byte_def)

lemma set_hex_byte: "set (hex_byte b) \<subseteq> set ldigits"
  by (simp add: hex_byte_def ldigits_nth nibble_hi nibble_lo)

lemma length_concat_hex: "length (concat (map hex_byte bs)) = 2 * length bs"
  by (induction bs) (simp_all add: length_hex_byte)

lemma set_concat_hex: "set (concat (map hex_byte bs)) \<subseteq> set ldigits"
  using set_hex_byte by auto

lemma length_Sprintf_02x: "bs \<noteq> [] \<Longrightarrow> length (Sprintf_02x bs) = 2 * length bs"
  by (cases bs) (simp_all add: Sprintf_02x_def Let_def length_concat_hex length_hex_byte)

lemma set_Sprintf_02x: "set (Sprintf_02x bs) \<subseteq> set ldigits"
proof -
  have "CHR ''0'' \<in> set ldigits" by (simp add: ldigits_def)
  then show ?thesis
    using set_concat_hex [of bs] by (auto simp: Sprintf_02x_def Let_def)
qed

lemma length_Sprintf_hmac: "length (Sprintf_02x (hmac_Sum h [])) = 64"
proof -
  have "length (hmac_Sum h []) = 32" by (simp add: length_hmac_Sum)
  moreover from this have "hmac_Sum h [] \<noteq> []" by auto
  ultimately show ?thesis by (simp add: length_Sprintf_02x)
qed

lemma set_Sprintf_hmac: "set (Sprintf_02x (hmac_Sum h [])) \<subseteq> set ''0123456789abcdef''"
  using set_Sprintf_02x [of "hmac_Sum h []"] by (simp add: ldigits_def)

text \<open>
  A known answer: the token below is the HMAC-SHA256, in hexadecimal, of the message
  \<open>project1user421469000000{}\<close> under the key \<open>secret\<close>. The model computes it, through
  two blocks of the inner hash and two of the outer one.
\<close>

lemma generateClientToken_known_answer:
  "generateClientToken ''secret'' ''project1'' ''user42'' ''1469000000'' '''' =
     ''09efbc1bd3771e4a02cf6de999b7ff5d7772d5c09570023fa053407cdf47c6f5''"
  by code_simp

section \<open>Signatures\<close>

text \<open>
  Claim C1. Whatever the secret and the fields, each verify function accepts the
  signature that the generate function of its domain has just produced from the same
  secret and fields: connection token, API sign and channel sign.
\<close>

theorem verify_accepts_generated:
  "checkClientToken secretKey projectKey user timestamp info
     (generateClientToken secretKey projectKey user timestamp info) \<and>
   checkApiSign secretKey projectKey encodedData
     (generateApiSign secretKey projectKey encodedData) \<and>
   checkChannelSign secretKey client channel channelData
     (generateChannelSign secretKey client channel channelData)"
  by (simp add: checkClientToken_def checkApiSign_def checkChannelSign_def)

text \<open>
  Claim C2. Each verify function answers true exactly when the candidate equals, byte
  for byte, the signature generated from the same secret and fields, and false
  otherwise. The functions are total on strings: no input makes them fail, since
  neither the keyed hash nor the formatting has an error case.
\<close>

theorem verify_iff_equal:
  "(checkClientToken secretKey projectKey user timestamp info candidate
      \<longleftrightarrow> candidate = generateClientToken secretKey projectKey user timestamp info) \<and>
   (checkApiSign secretKey projectKey encodedData candidate
      \<longleftrightarrow> candidate = generateApiSign secretKey projectKey encodedData) \<and>
   (checkChannelSign secretKey client channel channelData candidate
      \<longleftrightarrow> candidate = generateChannelSign secretKey client channel channelData)"
  by (auto simp: checkClientToken_def checkApiSign_def checkChannelSign_def)

text \<open>
  Claim C5. A connection token generated with the empty string as info is the token
  generated with the literal \<open>{}\<close> as info.
\<close>

theorem empty_info_is_empty_object:
  "generateClientToken secretKey projectKey user timestamp '''' =
   generateClientToken secretKey projectKey user timestamp ''{}''"
  by (simp add: generateClientToken_def clientTokenMac_def)

text \<open>
  Claim C7. Every generated signature has 64 characters, two for each of the 32 bytes
  of the digest, and each character is one of \<open>0123456789abcdef\<close>.
\<close>

theorem generated_signatures_are_hex64:
  "length (generateClientToken secretKey projectKey user timestamp info) = 64 \<and>
   set (generateClientToken secretKey projectKey user timestamp info) \<subseteq> set ''0123456789abcdef'' \<and>
   length (generateApiSign secretKey projectKey encodedData) = 64 \<and>
   set (generateApiSign secretKey projectKey encodedData) \<subseteq> set ''0123456789abcdef'' \<and>
   length (generateChannelSign secretKey client channel channelData) = 64 \<and>
   set (generateChannelSign secretKey client channel channelData) \<subseteq> set ''0123456789abcdef''"
  unfolding generateClientToken_def generateApiSign_def generateChannelSign_def
  using length_Sprintf_hmac set_Sprintf_hmac by blast

text \<open>
  Claim C9. Verification treats the empty info as generation does: with the empty
  string as info the verifier gives the same answer as with \<open>{}\<close>, for every candidate,
  and it accepts a token that was generated with \<open>{}\<close>.
\<close>

theorem verify_normalizes_empty_info:
  "checkClientToken secretKey projectKey user timestamp '''' candidate =
     checkClientToken secretKey projectKey user timestamp ''{}'' candidate \<and>
   checkClientToken secretKey projectKey user timestamp ''''
     (generateClientToken secretKey projectKey user timestamp ''{}'')"
  by (simp add: checkClientToken_def generateClientToken_def clientTokenMac_def)

subsection \<open>The bytes fed to the keyed hash\<close>

text \<open>
  After the key pad, the inner digest has received the fields one after the other, which
  is their concatenation: a write leaves no trace of where it began.
\<close>

lemma inner_clientTokenMac:
  "inner (clientTokenMac secretKey projectKey user timestamp info) =
     ipad (hmac_New (bytes_of_string secretKey)) @
     bytes_of_string (projectKey @ user @ timestamp @ (if info = '''' then ''{}'' else info))"
  by (simp add: clientTokenMac_def hmac_Write_def hmac_New_def Let_def bytes_of_string_append)

lemma inner_apiSignMac:
  "inner (apiSignMac secretKey projectKey encodedData) =
     ipad (hmac_New (bytes_of_string secretKey)) @ bytes_of_string (projectKey @ encodedData)"
  by (simp add: apiSignMac_def hmac_Write_def hmac_New_def Let_def bytes_of_string_append)

lemma inner_channelSignMac:
  "inner (channelSignMac secretKey client channel channelData) =
     ipad (hmac_New (bytes_of_string secretKey)) @
     bytes_of_string (client @ channel @ channelData)"
  by (simp add: channelSignMac_def hmac_Write_def hmac_New_def Let_def bytes_of_string_append)

text \<open>
  Claim C6, as stated, fails: the API fields \<open>(ab, c)\<close> and \<open>(a, bc)\<close> are different
  tuples, yet the keyed hash receives the same bytes for both and the two signatures
  are equal.
\<close>

theorem shifted_boundary_collides:
  "(''ab'', ''c'') \<noteq> (''a'', ''bc'') \<and>
   inner (apiSignMac ''secret'' ''ab'' ''c'') = inner (apiSignMac ''secret'' ''a'' ''bc'') \<and>
   generateApiSign ''secret'' ''ab'' ''c'' = generateApiSign ''secret'' ''a'' ''bc''"
  by (simp add: generateApiSign_def apiSignMac_def hmac_Write_def bytes_of_string_def)

text \<open>
  Claim C6, amended. Under one secret, two tuples of fields feed the keyed hash the same
  bytes exactly when the concatenations of their fields, in order and with the empty
  info taken as \<open>{}\<close>, are equal. Hence two tuples that differ in some field and whose
  corresponding fields have equal lengths feed it different bytes.
\<close>

theorem stream_is_concatenation:
  "(inner (clientTokenMac secretKey projectKey user timestamp info) =
      inner (clientTokenMac secretKey projectKey' user' timestamp' info')
    \<longleftrightarrow> projectKey @ user @ timestamp @ (if info = '''' then ''{}'' else info) =
        projectKey' @ user' @ timestamp' @ (if info' = '''' then ''{}'' else info')) \<and>
   (inner (apiSignMac secretKey projectKey encodedData) =
      inner (apiSignMac secretKey projectKey' encodedData')
    \<longleftrightarrow> projectKey @ encodedData = projectKey' @ encodedData') \<and>
   (inner (channelSignMac secretKey client channel channelData) =
      inner (channelSignMac secretKey client' channel' channelData')
    \<longleftrightarrow> client @ channel @ channelData = client' @ channel' @ channelData') \<and>
   (length projectKey = length projectKey' \<and> length user = length user' \<and>
    length timestamp = length timestamp' \<and> length info = length info' \<and>
    (projectKey, user, timestamp, info) \<noteq> (projectKey', user', timestamp', info')
    \<longrightarrow> inner (clientTokenMac secretKey projectKey user timestamp info) \<noteq>
        inner (clientTokenMac secretKey projectKey' user' timestamp' info')) \<and>
   (length projectKey = length projectKey' \<and> length encodedData = length encodedData' \<and>
    (projectKey, encodedData) \<noteq> (projectKey', encodedData')
    \<longrightarrow> inner (apiSignMac secretKey projectKey encodedData) \<noteq>
        inner (apiSignMac secretKey projectKey' encodedData')) \<and>
   (length client = length client' \<and> length channel = length channel' \<and>
    length channelData = length channelData' \<and>
    (client, channel, channelData) \<noteq> (client', channel', channelData')
    \<longrightarrow> inner (channelSignMac secretKey client channel channelData) \<noteq>
        inner (channelSignMac secretKey client' channel' channelData'))"
  unfolding inner_clientTokenMac inner_apiSignMac inner_channelSignMac
  by (auto simp: bytes_of_string_eq_iff)

theorem stream_is_concatenation_witness:
  "inner (clientTokenMac ''secret'' ''p1'' ''u1'' ''10'' '''') \<noteq>
     inner (clientTokenMac ''secret'' ''p1'' ''u2'' ''10'' '''') \<and>
   inner (apiSignMac ''secret'' ''p1'' ''{\"a\":1}'') \<noteq>
     inner (apiSignMac ''secret'' ''p1'' ''{\"a\":2}'') \<and>
   inner (channelSignMac ''secret'' ''c1'' ''$a'' ''x'') \<noteq>
     inner (channelSignMac ''secret'' ''c1'' ''$b'' ''x'')"
  using stream_is_concatenation [where secretKey = "''secret''"
      and projectKey = "''p1''" and projectKey' = "''p1''"
      and user = "''u1''" and user' = "''u2''"
      and timestamp = "''10''" and timestamp' = "''10''"
      and info = "''''" and info' = "''''"
      and encodedData = "''{\"a\":1}''" and encodedData' = "''{\"a\":2}''"
      and client = "''c1''" and client' = "''c1''"
      and channel = "''$a''" and channel' = "''$b''"
      and channelData = "''x''" and channelData' = "''x''"]
  by simp

section \<open>Namespaces\<close>

lemma stringInSlice_iff: "stringInSlice a list \<longleftrightarrow> a \<in> set list"
  by (induction list) auto

lemma in_class_iff:
  "in_class c \<longleftrightarrow>
     c \<in> set (''ABCDEFGHIJKLMNOPQRSTUVWXYZ'' @ ''abcdefghijklmnopqrstuvwxyz'' @
               ''0123456789'' @ ''_-'')"
  by (cases c) (simp add: in_class_def in_range_def)

lemma MatchString_pattern_iff: "MatchString_pattern name \<longleftrightarrow> name_pattern_ok name"
  unfolding MatchString_pattern_def name_pattern_ok_def list_all_iff subset_iff in_class_iff
  by blast

lemma Validate_loop_None_iff:
  "Validate_loop nsl nss = None \<longleftrightarrow>
     (\<forall>n \<in> set nsl. MatchString_pattern (Namespace.Name n)) \<and>
     distinct (map Namespace.Name nsl) \<and>
     Namespace.Name ` set nsl \<inter> set nss = {}"
  by (induction nsl arbitrary: nss) (auto simp: Let_def stringInSlice_iff)

lemma Validate_loop_append:
  "Validate_loop pre nss = None \<Longrightarrow>
   Validate_loop (pre @ rest) nss = Validate_loop rest (nss @ map Namespace.Name pre)"
  by (induction pre arbitrary: nss) (auto simp: Let_def split: if_splits)

lemma Validate_loop_Some:
  "Validate_loop nsl nss = Some e \<Longrightarrow>
   \<exists>pre n rest. nsl = pre @ n # rest \<and> Validate_loop pre nss = None \<and>
     (if \<not> MatchString_pattern (Namespace.Name n)
      then e = errors_New (errPrefix @ wrong_name_message @ Namespace.Name n)
      else Namespace.Name n \<in> set nss \<union> Namespace.Name ` set pre \<and>
           e = errors_New (errPrefix @ ''namespace name must be unique''))"
proof (induction nsl arbitrary: nss)
  case Nil
  then show ?case by simp
next
  case (Cons m ms)
  show ?case
  proof (cases "MatchString_pattern (Namespace.Name m) \<and> \<not> stringInSlice (Namespace.Name m) nss")
    case True
    with Cons.prems have "Validate_loop ms (nss @ [Namespace.Name m]) = Some e"
      by (simp add: Let_def)
    from Cons.IH [OF this] obtain pre n rest where
      ms: "ms = pre @ n # rest" and
      pre: "Validate_loop pre (nss @ [Namespace.Name m]) = None" and
      err: "if \<not> MatchString_pattern (Namespace.Name n)
            then e = errors_New (errPrefix @ wrong_name_message @ Namespace.Name n)
            else Namespace.Name n \<in> set (nss @ [Namespace.Name m]) \<union> Namespace.Name ` set pre \<and>
                 e = errors_New (errPrefix @ ''namespace name must be unique'')"
      by blast
    have "m # ms = (m # pre) @ n # rest" using ms by simp
    moreover have "Validate_loop (m # pre) nss = None" using True pre by (simp add: Let_def)
    moreover have "if \<not> MatchString_pattern (Namespace.Name n)
            then e = errors_New (errPrefix @ wrong_name_message @ Namespace.Name n)
            else Namespace.Name n \<in> set nss \<union> Namespace.Name ` set (m # pre) \<and>
                 e = errors_New (errPrefix @ ''namespace name must be unique'')"
      using err by (auto split: if_splits)
    ultimately show ?thesis by blast
  next
    case False
    have "m # ms = [] @ m # ms" by simp
    moreover have "Validate_loop [] nss = None" by simp
    moreover have "if \<not> MatchString_pattern (Namespace.Name m)
            then e = errors_New (errPrefix @ wrong_name_message @ Namespace.Name m)
            else Namespace.Name m \<in> set nss \<union> Namespace.Name ` set [] \<and>
                 e = errors_New (errPrefix @ ''namespace name must be unique'')"
      using False Cons.prems by (auto simp: Let_def stringInSlice_iff split: if_splits)
    ultimately show ?thesis by blast
  qed
qed

lemma Validate_loop_violation:
  assumes "Validate_loop pre nss = None"
    and "\<not> MatchString_pattern (Namespace.Name n) \<or>
         Namespace.Name n \<in> set nss \<union> Namespace.Name ` set pre"
  shows "Validate_loop (pre @ n # rest) nss =
     Some (errors_New (if \<not> MatchString_pattern (Namespace.Name n)
                       then errPrefix @ wrong_name_message @ Namespace.Name n
                       else errPrefix @ ''namespace name must be unique''))"
  using assms by (auto simp: Validate_loop_append Let_def stringInSlice_iff)

text \<open>
  Claim C3. \<open>Validate\<close> returns \<open>nil\<close> exactly when every declared name matches the
  pattern and no name occurs twice. Otherwise it reports the first violation in list
  order: when the entries before \<open>n\<close> are well-formed and distinct and \<open>n\<close> has a
  malformed name or repeats an earlier one, the error is the message for \<open>n\<close>, the
  wrong-name message ending in the name if it is malformed and the uniqueness message
  if not. Every error \<open>Validate\<close> returns arises in this way.
\<close>

theorem Validate_ok_iff_and_first_violation:
  "(Validate c = None \<longleftrightarrow>
      (\<forall>n \<in> set (Namespaces c). name_pattern_ok (Namespace.Name n)) \<and>
      distinct (map Namespace.Name (Namespaces c))) \<and>
   (Namespaces c = pre @ n # rest \<and>
    (\<forall>m \<in> set pre. name_pattern_ok (Namespace.Name m)) \<and> distinct (map Namespace.Name pre) \<and>
    (\<not> name_pattern_ok (Namespace.Name n) \<or> Namespace.Name n \<in> Namespace.Name ` set pre)
    \<longrightarrow> Validate c =
          Some (errors_New (if \<not> name_pattern_ok (Namespace.Name n)
                            then errPrefix @ wrong_name_message @ Namespace.Name n
                            else errPrefix @ ''namespace name must be unique''))) \<and>
   (Validate c = Some e \<longrightarrow>
      (\<exists>pre n rest. Namespaces c = pre @ n # rest \<and>
         (\<forall>m \<in> set pre. name_pattern_ok (Namespace.Name m)) \<and>
         distinct (map Namespace.Name pre) \<and>
         (\<not> name_pattern_ok (Namespace.Name n) \<or> Namespace.Name n \<in> Namespace.Name ` set pre) \<and>
         e = errors_New (if \<not> name_pattern_ok (Namespace.Name n)
                         then errPrefix @ wrong_name_message @ Namespace.Name n
                         else errPrefix @ ''namespace name must be unique'')))"
proof (intro conjI impI)
  show "Validate c = None \<longleftrightarrow>
      (\<forall>n \<in> set (Namespaces c). name_pattern_ok (Namespace.Name n)) \<and>
      distinct (map Namespace.Name (Namespaces c))"
    by (simp add: Validate_def Validate_loop_None_iff MatchString_pattern_iff)
next
  assume a: "Namespaces c = pre @ n # rest \<and>
    (\<forall>m \<in> set pre. name_pattern_ok (Namespace.Name m)) \<and> distinct (map Namespace.Name pre) \<and>
    (\<not> name_pattern_ok (Namespace.Name n) \<or> Namespace.Name n \<in> Namespace.Name ` set pre)"
  then have "Validate_loop pre [] = None"
    by (simp add: Validate_loop_None_iff MatchString_pattern_iff)
  from Validate_loop_violation [OF this, of n rest] a
  show "Validate c =
          Some (errors_New (if \<not> name_pattern_ok (Namespace.Name n)
                            then errPrefix @ wrong_name_message @ Namespace.Name n
                            else errPrefix @ ''namespace name must be unique''))"
    by (simp add: Validate_def MatchString_pattern_iff)
next
  assume "Validate c = Some e"
  then have "Validate_loop (Namespaces c) [] = Some e" by (simp add: Validate_def)
  from Validate_loop_Some [OF this] obtain pre n rest where
    split: "Namespaces c = pre @ n # rest" and
    pre: "Validate_loop pre [] = None" and
    err: "if \<not> MatchString_pattern (Namespace.Name n)
          then e = errors_New (errPrefix @ wrong_name_message @ Namespace.Name n)
          else Namespace.Name n \<in> set [] \<union> Namespace.Name ` set pre \<and>
               e = errors_New (errPrefix @ ''namespace name must be unique'')"
    by blast
  from pre have "(\<forall>m \<in> set pre. name_pattern_ok (Namespace.Name m)) \<and>
      distinct (map Namespace.Name pre)"
    by (simp add: Validate_loop_None_iff MatchString_pattern_iff)
  moreover from err have
    "(\<not> name_pattern_ok (Namespace.Name n) \<or> Namespace.Name n \<in> Namespace.Name ` set pre) \<and>
     e = errors_New (if \<not> name_pattern_ok (Namespace.Name n)
                     then errPrefix @ wrong_name_message @ Namespace.Name n
                     else errPrefix @ ''namespace name must be unique'')"
    by (auto simp: MatchString_pattern_iff split: if_splits)
  ultimately show "\<exists>pre n rest. Namespaces c = pre @ n # rest \<and>
         (\<forall>m \<in> set pre. name_pattern_ok (Namespace.Name m)) \<and>
         distinct (map Namespace.Name pre) \<and>
         (\<not> name_pattern_ok (Namespace.Name n) \<or> Namespace.Name n \<in> Namespace.Name ` set pre) \<and>
         e = errors_New (if \<not> name_pattern_ok (Namespace.Name n)
                         then errPrefix @ wrong_name_message @ Namespace.Name n
                         else errPrefix @ ''namespace name must be unique'')"
    using split by blast
qed

theorem Validate_ok_iff_and_first_violation_witness:
  "Validate (config_with 9 [ns ''ok-1'' 1, ns ''ok_2'' 2]) = None \<and>
   Validate (config_with 9 [ns ''news'' 1, ns ''a'' 2, ns ''news'' 3]) =
     Some (errors_New (''config error: wrong namespace name '' @ [CHR 0xE2, CHR 0x80, CHR 0x93] @ '' a'')) \<and>
   Validate (config_with 9 [ns ''news'' 1, ns ''chat'' 2, ns ''news'' 3, ns ''!'' 4]) =
     Some (errors_New ''config error: namespace name must be unique'')"
  using
    Validate_ok_iff_and_first_violation
      [where c = "config_with 9 [ns ''ok-1'' 1, ns ''ok_2'' 2]"
         and pre = "[]" and n = "ns ''ok-1'' 1" and rest = "[ns ''ok_2'' 2]"]
    Validate_ok_iff_and_first_violation
      [where c = "config_with 9 [ns ''news'' 1, ns ''a'' 2, ns ''news'' 3]"
         and pre = "[ns ''news'' 1]" and n = "ns ''a'' 2" and rest = "[ns ''news'' 3]"]
    Validate_ok_iff_and_first_violation
      [where c = "config_with 9 [ns ''news'' 1, ns ''chat'' 2, ns ''news'' 3, ns ''!'' 4]"
         and pre = "[ns ''news'' 1, ns ''chat'' 2]" and n = "ns ''news'' 3" and rest = "[ns ''!'' 4]"]
  by (simp add: ns_def config_with_def DefaultConfig_def name_pattern_ok_def
        errPrefix_def wrong_name_message_def)

lemma channelOpts_loop_miss:
  "namespaceName \<notin> Namespace.Name ` set nsl \<Longrightarrow>
   channelOpts_loop zero nsl namespaceName = (zero, False)"
  by (induction nsl) auto


lemma channelOpts_loop_hit:
  "namespaceName \<in> Namespace.Name ` set nsl \<Longrightarrow>
   \<exists>n \<in> set nsl. Namespace.Name n = namespaceName \<and>
     channelOpts_loop zero nsl namespaceName = (Namespace.Options n, True)"
  by (induction nsl) auto

text \<open>
  Claim C4. For the empty name \<open>channelOpts\<close> returns the options of the configuration
  itself and true, whatever the namespaces are. For a non-empty name that some declared
  namespace bears, with exactly these bytes, it returns the options of such a namespace
  and true; for a non-empty name that none bears it returns the zero options and false.
\<close>

theorem channelOpts_resolves:
  "channelOpts zero c '''' = (Config.Options c, True) \<and>
   (namespaceName \<noteq> '''' \<and> namespaceName \<in> Namespace.Name ` set (Namespaces c) \<longrightarrow>
      (\<exists>n \<in> set (Namespaces c). Namespace.Name n = namespaceName \<and>
         channelOpts zero c namespaceName = (Namespace.Options n, True))) \<and>
   (namespaceName \<noteq> '''' \<and> namespaceName \<notin> Namespace.Name ` set (Namespaces c) \<longrightarrow>
      channelOpts zero c namespaceName = (zero, False))"
  using channelOpts_loop_hit [of namespaceName "Namespaces c" zero]
  by (simp add: channelOpts_def channelOpts_loop_miss)

theorem channelOpts_resolves_witness:
  "channelOpts 0 (config_with 9 [ns ''news'' 5]) '''' = (9, True) \<and>
   channelOpts 0 (config_with 9 [ns ''news'' 5]) ''news'' = (5, True) \<and>
   channelOpts 0 (config_with 9 [ns ''news'' 5]) ''missing'' = (0, False) \<and>
   channelOpts 0 (config_with 9 [ns ''news'' 5]) ''News'' = (0, False)"
  using
    channelOpts_resolves [where zero = 0 and c = "config_with 9 [ns ''news'' 5]"
      and namespaceName = "''news''"]
    channelOpts_resolves [where zero = 0 and c = "config_with 9 [ns ''news'' 5]"
      and namespaceName = "''missing''"]
    channelOpts_resolves [where zero = 0 and c = "config_with 9 [ns ''news'' 5]"
      and namespaceName = "''News''"]
  by (simp add: ns_def config_with_def DefaultConfig_def)

text \<open>
  Claim C8. In a configuration that \<open>Validate\<close> accepts no namespace is named by the
  empty string, every name having at least two characters; the empty name resolves to
  the options of the configuration itself.
\<close>

theorem valid_names_are_not_empty:
  "Validate c = None \<Longrightarrow>
   '''' \<notin> Namespace.Name ` set (Namespaces c) \<and>
   (\<forall>n \<in> set (Namespaces c). 2 \<le> length (Namespace.Name n)) \<and>
   channelOpts zero c '''' = (Config.Options c, True)"
  by (auto simp: Validate_def Validate_loop_None_iff MatchString_pattern_def channelOpts_def)

theorem valid_names_are_not_empty_witness:
  "Validate (config_with 9 [ns ''ok-1'' 1, ns ''ok_2'' 2]) = None \<and>
   '''' \<notin> Namespace.Name ` set (Namespaces (config_with 9 [ns ''ok-1'' 1, ns ''ok_2'' 2])) \<and>
   channelOpts 0 (config_with 9 [ns ''ok-1'' 1, ns ''ok_2'' 2]) '''' = (9, True)"
proof -
  have ok: "Validate (config_with 9 [ns ''ok-1'' 1, ns ''ok_2'' 2]) = None"
    by (simp add: example_defs)
  from valid_names_are_not_empty [OF ok, of 0] ok show ?thesis
    by (simp add: ns_def config_with_def DefaultConfig_def)
qed




end
